theory Spec2Isabelle
  imports Complex_Main "HOL-Library.AList"
begin

section \<open>Python values used by the honeypot\<close>

text \<open>
  The honeypot is a Python program. Its strings are modelled as HOL strings, so the model
  covers the texts whose code points lie below 256; the character classes below are the
  ones Python's \<^verbatim>\<open>str\<close> and \<^verbatim>\<open>re\<close> use on that range. Python's
  \<^verbatim>\<open>int\<close> is \<^typ>\<open>int\<close>, a \<^verbatim>\<open>float\<close> that the program only divides and
  compares is an exact rational, a \<^verbatim>\<open>Dict[str, List[str]]\<close> is an association list in
  insertion order, and a point in time is an integer number of microseconds.
\<close>

type_synonym pydict = "(string \<times> string list) list"

definition dict_get :: "pydict \<Rightarrow> string \<Rightarrow> string list" where
  \<comment> \<open>\<^verbatim>\<open>d.get(key, [])\<close>\<close>
  "dict_get d key = (case map_of d key of None \<Rightarrow> [] | Some vs \<Rightarrow> vs)"

definition list_set :: "string list \<Rightarrow> string list" where
  \<comment> \<open>\<^verbatim>\<open>list(set(xs))\<close>: the elements of \<open>xs\<close>, each once. Python leaves the order of the
      result open; the model keeps every element at its last occurrence.\<close>
  "list_set xs = remdups xs"

definition py_lower_char :: "char \<Rightarrow> char" where
  "py_lower_char c =
     (let n = (of_char c :: nat)
      in if (65 \<le> n \<and> n \<le> 90) \<or> (192 \<le> n \<and> n \<le> 222 \<and> n \<noteq> 215)
         then char_of (n + 32) else c)"

definition py_lower :: "string \<Rightarrow> string" where
  \<comment> \<open>\<^verbatim>\<open>s.lower()\<close>\<close>
  "py_lower s = map py_lower_char s"

fun starts_with :: "string \<Rightarrow> string \<Rightarrow> bool" where
  "starts_with [] s = True"
| "starts_with (k # ks) [] = False"
| "starts_with (k # ks) (c # cs) = (k = c \<and> starts_with ks cs)"

fun py_in :: "string \<Rightarrow> string \<Rightarrow> bool" where
  \<comment> \<open>\<^verbatim>\<open>keyword in s\<close> on strings: \<open>keyword\<close> occurs in \<open>s\<close> as a substring\<close>
  "py_in k [] = (k = [])"
| "py_in k (c # cs) = (starts_with k (c # cs) \<or> py_in k cs)"

fun py_join :: "string \<Rightarrow> string list \<Rightarrow> string" where
  \<comment> \<open>\<^verbatim>\<open>sep.join(xs)\<close>\<close>
  "py_join sep [] = []"
| "py_join sep [x] = x"
| "py_join sep (x # y # ys) = x @ sep @ py_join sep (y # ys)"

definition last_n :: "nat \<Rightarrow> 'a list \<Rightarrow> 'a list" where
  \<comment> \<open>\<^verbatim>\<open>xs[-n:]\<close> for a positive \<open>n\<close>\<close>
  "last_n n xs = drop (length xs - n) xs"


section \<open>Scam Scorer (services/ai\_service.py)\<close>

definition SCAM_KEYWORDS :: "(string \<times> int) list" where
  "SCAM_KEYWORDS =
    [(''otp'', 5), (''one time password'', 5), (''kyc'', 4), (''verify your account'', 4),
     (''verify immediately'', 5), (''verification required'', 4),
     (''urgent'', 3), (''immediately'', 3), (''account blocked'', 5),
     (''account suspended'', 5), (''account will be blocked'', 5), (''limited time'', 3),
     (''expires today'', 4), (''last chance'', 4),
     (''bank officer'', 4), (''customer care'', 3), (''government official'', 4),
     (''tax department'', 4), (''police'', 4),
     (''refund'', 3), (''cashback'', 2), (''prize'', 3), (''lottery'', 4), (''won'', 2),
     (''claim'', 2),
     (''click the link'', 5), (''install app'', 5), (''anydesk'', 5), (''teamviewer'', 5),
     (''remote access'', 5), (''screen share'', 4), (''download'', 3),
     (''upi'', 3), (''bank account'', 2), (''credit card'', 2), (''debit card'', 2),
     (''cvv'', 5), (''pin'', 4), (''password'', 4), (''net banking'', 3)]"

record heuristic =
  score :: int
  matched_keywords :: "string list"

definition score_step :: "string \<Rightarrow> heuristic \<Rightarrow> string \<times> int \<Rightarrow> heuristic" where
  \<comment> \<open>one round of the loop over \<^verbatim>\<open>SCAM_KEYWORDS.items()\<close>\<close>
  "score_step lower_text h kw =
     (if py_in (fst kw) lower_text
      then \<lparr>score = score h + snd kw, matched_keywords = matched_keywords h @ [fst kw]\<rparr>
      else h)"

definition heuristic_scam_score :: "string \<Rightarrow> heuristic" where
  "heuristic_scam_score txt =
     foldl (score_step (py_lower txt)) \<lparr>score = 0, matched_keywords = []\<rparr> SCAM_KEYWORDS"

text \<open>
  The classifier \<^verbatim>\<open>llm_fraud_classification\<close> runs an external language model. It is a
  parameter of the model: a function from the context it is given to the dictionary it
  returns, or to \<open>None\<close> when the \<^verbatim>\<open>try\<close> block around the call ends in an exception.
\<close>

record llm_result =
  label :: string
  llm_confidence :: rat
  reason :: string

type_synonym classifier = "string \<Rightarrow> llm_result option"

datatype details = NoDetails | Heuristic heuristic | Llm llm_result heuristic

record detection =
  is_scam :: bool
  confidence :: rat
  det_method :: string
  details :: details

record Message =
  sender :: string
  msg_text :: string
  timestamp :: int

definition history_line :: "Message \<Rightarrow> string" where
  \<comment> \<open>\<^verbatim>\<open>f"{msg.get('sender', 'unknown')}: {msg.get('text', '')}"\<close>\<close>
  "history_line msg = sender msg @ '': '' @ msg_text msg"

definition full_context :: "string \<Rightarrow> Message list \<Rightarrow> string" where
  "full_context txt conversation_history =
     (if conversation_history \<noteq> []
      then py_join [CHR 0x0A] (map history_line (last_n 5 conversation_history))
             @ [CHR 0x0A] @ ''Current: '' @ txt
      else txt)"

definition predict_scam :: "classifier \<Rightarrow> string \<Rightarrow> Message list \<Rightarrow> detection \<times> string list" where
  \<comment> \<open>the result, and the contexts handed to the classifier in this call, in order\<close>
  "predict_scam llm txt conversation_history =
     (let h = heuristic_scam_score txt
      in if score h \<ge> 6
         then (\<lparr>is_scam = True, confidence = min (of_int (score h) / 15) (95 / 100),
                 det_method = ''heuristic'', details = Heuristic h\<rparr>, [])
         else
           let ctx = full_context txt conversation_history;
               fallback =
                 (if score h > 0
                  then \<lparr>is_scam = False, confidence = of_int (score h) / 15,
                         det_method = ''heuristic_low'', details = Heuristic h\<rparr>
                  else \<lparr>is_scam = False, confidence = 0, det_method = ''none'',
                         details = NoDetails\<rparr>)
           in (case llm ctx of
                 None \<Rightarrow> (fallback, [ctx])
               | Some r \<Rightarrow>
                   if py_lower (label r) = ''scam'' \<and> llm_confidence r \<ge> 75 / 100
                   then (\<lparr>is_scam = True, confidence = llm_confidence r,
                           det_method = ''llm'', details = Llm r h\<rparr>, [ctx])
                   else (fallback, [ctx])))"


section \<open>Entity Extractor (services/extractor.py)\<close>

text \<open>
  The six patterns of the extractor are sequences of word boundaries and of greedy
  repetitions of one character class (a literal character is a class repeated exactly
  once). \<open>rmatch\<close> is the backtracking match of such a sequence at the start of a string,
  as \<^verbatim>\<open>re\<close> performs it: every repetition first takes as many characters as it can and
  gives them back one at a time while the rest of the pattern fails. The character before
  the string is carried along for \<^verbatim>\<open>\b\<close>.
\<close>

datatype item = Boundary | Rep "char \<Rightarrow> bool" nat "nat option"

definition Lit :: "char \<Rightarrow> item" where
  "Lit c = Rep (\<lambda>x. x = c) 1 (Some 1)"

definition in_range :: "nat \<Rightarrow> nat \<Rightarrow> char \<Rightarrow> bool" where
  "in_range lo hi c = (lo \<le> of_char c \<and> (of_char c :: nat) \<le> hi)"

definition is_digit :: "char \<Rightarrow> bool" where
  \<comment> \<open>\<^verbatim>\<open>\d\<close>\<close>
  "is_digit c = in_range 48 57 c"

definition is_upper_az :: "char \<Rightarrow> bool" where
  "is_upper_az c = in_range 65 90 c"

definition is_lower_az :: "char \<Rightarrow> bool" where
  "is_lower_az c = in_range 97 122 c"

definition is_alnum_ascii :: "char \<Rightarrow> bool" where
  "is_alnum_ascii c = (is_lower_az c \<or> is_upper_az c \<or> is_digit c)"

definition is_word :: "char \<Rightarrow> bool" where
  \<comment> \<open>\<^verbatim>\<open>\w\<close>: alphanumeric or underscore\<close>
  "is_word c =
     (is_alnum_ascii c \<or> c = CHR ''_''
      \<or> of_char c \<in> {170, 178, 179, 181, 185, 186, 188, 189, 190 :: nat}
      \<or> in_range 192 214 c \<or> in_range 216 246 c \<or> in_range 248 255 c)"

definition is_space :: "char \<Rightarrow> bool" where
  \<comment> \<open>\<^verbatim>\<open>\s\<close>\<close>
  "is_space c = (in_range 9 13 c \<or> in_range 28 32 c \<or> of_char c \<in> {133, 160 :: nat})"

definition at_boundary :: "char option \<Rightarrow> string \<Rightarrow> bool" where
  \<comment> \<open>\<^verbatim>\<open>\b\<close>: exactly one of the characters before and after the position is a word
      character\<close>
  "at_boundary prev s =
     ((case prev of None \<Rightarrow> False | Some p \<Rightarrow> is_word p)
        \<noteq> (case s of [] \<Rightarrow> False | c # _ \<Rightarrow> is_word c))"

definition prev_after :: "char option \<Rightarrow> string \<Rightarrow> char option" where
  \<comment> \<open>the character before the position reached after consuming \<open>m\<close>\<close>
  "prev_after prev m = (if m = [] then prev else Some (last m))"

fun rmatch :: "item list \<Rightarrow> char option \<Rightarrow> string \<Rightarrow> string option"
  and first_match :: "item list \<Rightarrow> char option \<Rightarrow> string \<Rightarrow> nat list \<Rightarrow> string option"
where
  "rmatch [] prev s = Some []"
| "rmatch (Boundary # r) prev s = (if at_boundary prev s then rmatch r prev s else None)"
| "rmatch (Rep cls lo hi # r) prev s =
     (let avail = length (takeWhile cls s);
          kmax = (case hi of None \<Rightarrow> avail | Some h \<Rightarrow> min h avail)
      in first_match r prev s (rev [lo..<Suc kmax]))"
| "first_match r prev s [] = None"
| "first_match r prev s (k # ks) =
     (case rmatch r (prev_after prev (take k s)) (drop k s) of
        Some m \<Rightarrow> Some (take k s @ m)
      | None \<Rightarrow> first_match r prev s ks)"

text \<open>
  \<^verbatim>\<open>re.findall\<close> scans from left to right and collects the matches, each search starting
  where the last match ended. None of the six patterns matches the empty string, so a
  match always moves the scan forward.
\<close>

function findall :: "item list \<Rightarrow> char option \<Rightarrow> string \<Rightarrow> string list" where
  "findall r prev [] = (case rmatch r prev [] of None \<Rightarrow> [] | Some m \<Rightarrow> [m])"
| "findall r prev (c # cs) =
     (case rmatch r prev (c # cs) of
        None \<Rightarrow> findall r (Some c) cs
      | Some m \<Rightarrow>
          if m = [] then m # findall r (Some c) cs
          else m # findall r (Some (last m)) (drop (length m) (c # cs)))"
  by pat_completeness auto
termination
  by (relation "measure (\<lambda>(r, prev, s). length s)") auto

definition UPI_REGEX :: "item list" where
  \<comment> \<open>\<^verbatim>\<open>\b[a-zA-Z0-9.\-_]{2,}@[a-zA-Z]{2,}\b\<close>\<close>
  "UPI_REGEX =
     [Boundary, Rep (\<lambda>c. is_alnum_ascii c \<or> c \<in> set ''.-_'') 2 None, Lit CHR ''@'',
      Rep (\<lambda>c. is_lower_az c \<or> is_upper_az c) 2 None, Boundary]"

definition URL_REGEX :: "item list" where
  \<comment> \<open>\<^verbatim>\<open>https?://[^\s]+\<close>\<close>
  "URL_REGEX =
     [Lit CHR ''h'', Lit CHR ''t'', Lit CHR ''t'', Lit CHR ''p'',
      Rep (\<lambda>c. c = CHR ''s'') 0 (Some 1), Lit CHR '':'', Lit CHR ''/'', Lit CHR ''/'',
      Rep (\<lambda>c. \<not> is_space c) 1 None]"

definition IFSC_REGEX :: "item list" where
  \<comment> \<open>\<^verbatim>\<open>\b[A-Z]{4}0[A-Z0-9]{6}\b\<close>\<close>
  "IFSC_REGEX =
     [Boundary, Rep is_upper_az 4 (Some 4), Lit CHR ''0'',
      Rep (\<lambda>c. is_upper_az c \<or> is_digit c) 6 (Some 6), Boundary]"

definition PHONE_REGEX :: "item list" where
  \<comment> \<open>\<^verbatim>\<open>\b[6-9]\d{9}\b\<close>\<close>
  "PHONE_REGEX = [Boundary, Rep (in_range 54 57) 1 (Some 1), Rep is_digit 9 (Some 9), Boundary]"

definition BANK_ACCOUNT_REGEX :: "item list" where
  \<comment> \<open>\<^verbatim>\<open>\b\d{9,18}\b\<close>\<close>
  "BANK_ACCOUNT_REGEX = [Boundary, Rep is_digit 9 (Some 18), Boundary]"

definition EMAIL_REGEX :: "item list" where
  \<comment> \<open>\<^verbatim>\<open>\b[A-Za-z0-9._%+-]+@[A-Za-z0-9.-]+\.[A-Z|a-z]{2,}\b\<close>\<close>
  "EMAIL_REGEX =
     [Boundary, Rep (\<lambda>c. is_alnum_ascii c \<or> c \<in> set ''._%+-'') 1 None, Lit CHR ''@'',
      Rep (\<lambda>c. is_alnum_ascii c \<or> c \<in> set ''.-'') 1 None, Lit CHR ''.'',
      Rep (\<lambda>c. is_upper_az c \<or> c = CHR ''|'' \<or> is_lower_az c) 2 None, Boundary]"

definition re_findall :: "item list \<Rightarrow> string \<Rightarrow> string list" where
  \<comment> \<open>\<^verbatim>\<open>re.findall(pattern, text)\<close>\<close>
  "re_findall r txt = findall r None txt"

definition extract_entities :: "string \<Rightarrow> pydict" where
  "extract_entities txt =
     (if txt = []
      then [(''upi_ids'', []), (''urls'', []), (''ifsc_codes'', []), (''phone_numbers'', []),
            (''bank_accounts'', []), (''emails'', [])]
      else
        let upi_ids = list_set (re_findall UPI_REGEX txt);
            urls = list_set (re_findall URL_REGEX txt);
            ifsc_codes = list_set (re_findall IFSC_REGEX txt);
            phone_numbers = list_set (re_findall PHONE_REGEX txt);
            emails = list_set (re_findall EMAIL_REGEX txt);
            potential_accounts = re_findall BANK_ACCOUNT_REGEX txt;
            bank_accounts =
              list_set (filter (\<lambda>acc. length acc \<ge> 9 \<and> acc \<notin> set phone_numbers)
                          potential_accounts)
        in [(''upi_ids'', upi_ids), (''urls'', urls), (''ifsc_codes'', ifsc_codes),
            (''phone_numbers'', phone_numbers), (''bank_accounts'', bank_accounts),
            (''emails'', emails)])"

definition merge_intelligence :: "pydict \<Rightarrow> pydict \<Rightarrow> pydict" where
  "merge_intelligence existing new =
     (let all_keys = list_set (map fst existing @ map fst new)
      in map (\<lambda>key. (key, list_set (dict_get existing key @ dict_get new key))) all_keys)"


text \<open>
  A dictionary seen as the specification sees it, a set of strings per category:
  \<open>dict_view\<close> keeps the keys apart from the categories that are absent, \<open>category\<close>
  reads an absent category as empty, as \<^verbatim>\<open>d.get(key, [])\<close> does.
\<close>

definition dict_view :: "pydict \<Rightarrow> string \<rightharpoonup> string set" where
  "dict_view d = map_option set \<circ> map_of d"

definition category :: "pydict \<Rightarrow> string \<Rightarrow> string set" where
  "category d key = set (dict_get d key)"


section \<open>Data model (models/schemas.py, core/config.py)\<close>

record ExtractedIntelligence =
  bankAccounts :: "string list"
  upiIds :: "string list"
  phishingLinks :: "string list"
  phoneNumbers :: "string list"
  suspiciousKeywords :: "string list"

definition empty_intelligence :: ExtractedIntelligence where
  \<comment> \<open>\<^verbatim>\<open>ExtractedIntelligence()\<close>\<close>
  "empty_intelligence =
     \<lparr>bankAccounts = [], upiIds = [], phishingLinks = [], phoneNumbers = [],
      suspiciousKeywords = []\<rparr>"

record SessionData =
  sessionId :: string
  conversationHistory :: "Message list"
  stage :: string
  memory :: pydict
  totalMessages :: int
  scamDetected :: bool
  extractedIntelligence :: ExtractedIntelligence
  sessionKeywords :: "string list"  \<comment> \<open>the session's own \<^verbatim>\<open>suspiciousKeywords\<close>, never written\<close>
  agentNotes :: string
  createdAt :: int

record HoneypotRequest =
  requestSessionId :: string
  message :: Message
  requestHistory :: "Message list"  \<comment> \<open>\<^verbatim>\<open>conversationHistory\<close> of the request\<close>

record HoneypotResponse =
  status :: string
  reply :: string

record FinalResultPayload =
  payloadSessionId :: string
  payloadScamDetected :: bool
  totalMessagesExchanged :: int
  payloadIntelligence :: ExtractedIntelligence
  payloadAgentNotes :: string

record settings =
  API_KEY :: string
  MAX_TURNS :: int
  SESSION_TIMEOUT_MINUTES :: int

definition default_settings :: settings where
  "default_settings =
     \<lparr>API_KEY = ''honeypot-secret-key-2025-guvi-hackathon'', MAX_TURNS = 10,
      SESSION_TIMEOUT_MINUTES = 30\<rparr>"


section \<open>Session Store (services/session\_manager.py)\<close>

text \<open>
  The table \<^verbatim>\<open>_sessions\<close> is a map from session ids to sessions. The clock
  \<^verbatim>\<open>datetime.utcnow()\<close> is a parameter of every operation that reads it.
\<close>

type_synonym sessions = "string \<rightharpoonup> SessionData"

definition timeout_micros :: "settings \<Rightarrow> int" where
  \<comment> \<open>\<^verbatim>\<open>timedelta(minutes=settings.SESSION_TIMEOUT_MINUTES)\<close>\<close>
  "timeout_micros cfg = SESSION_TIMEOUT_MINUTES cfg * 60000000"

definition get_session :: "settings \<Rightarrow> int \<Rightarrow> sessions \<Rightarrow> string \<Rightarrow> SessionData option \<times> sessions" where
  "get_session cfg now ss session_id =
     (case ss session_id of
        None \<Rightarrow> (None, ss)
      | Some session \<Rightarrow>
          if now - createdAt session > timeout_micros cfg
          then (None, ss(session_id := None))
          else (Some session, ss))"

definition new_session :: "int \<Rightarrow> string \<Rightarrow> SessionData" where
  "new_session now session_id =
     \<lparr>sessionId = session_id, conversationHistory = [], stage = ''trust'', memory = [],
      totalMessages = 0, scamDetected = False, extractedIntelligence = empty_intelligence,
      sessionKeywords = [], agentNotes = [], createdAt = now\<rparr>"

definition create_session :: "int \<Rightarrow> sessions \<Rightarrow> string \<Rightarrow> SessionData \<times> sessions" where
  "create_session now ss session_id =
     (new_session now session_id, ss(session_id \<mapsto> new_session now session_id))"

definition get_or_create_session ::
  "settings \<Rightarrow> int \<Rightarrow> int \<Rightarrow> sessions \<Rightarrow> string \<Rightarrow> SessionData \<times> sessions" where
  \<comment> \<open>\<open>now\<close> is the clock read by the lookup, \<open>now'\<close> the clock read by the creation\<close>
  "get_or_create_session cfg now now' ss session_id =
     (case get_session cfg now ss session_id of
        (Some session, ss') \<Rightarrow> (session, ss')
      | (None, ss') \<Rightarrow> create_session now' ss' session_id)"

definition update_session :: "sessions \<Rightarrow> SessionData \<Rightarrow> sessions" where
  "update_session ss session = ss(sessionId session \<mapsto> session)"

definition delete_session :: "sessions \<Rightarrow> string \<Rightarrow> sessions" where
  "delete_session ss session_id = ss(session_id := None)"

text \<open>
  A session is one mutable object, shared by the table and by the handler that looked it
  up. \<open>add_message\<close> and \<open>update_intelligence\<close> below are the mutations of that object; the
  write to the table that ends each of them (\<open>update_session\<close>) stores the same object
  again, so the handler applies it once, when it is done with the session.
\<close>

definition add_message :: "SessionData \<Rightarrow> Message \<Rightarrow> SessionData" where
  "add_message session m =
     session\<lparr>conversationHistory := conversationHistory session @ [m],
             totalMessages := totalMessages session + 1\<rparr>"

definition union_into :: "string list \<Rightarrow> string list \<Rightarrow> string list" where
  \<comment> \<open>\<^verbatim>\<open>existing = set(xs); existing.update(new); list(existing)\<close>, run when \<open>new\<close> is not
      empty\<close>
  "union_into xs new = (if new \<noteq> [] then list_set (xs @ new) else xs)"

definition update_intelligence :: "SessionData \<Rightarrow> pydict \<Rightarrow> SessionData" where
  "update_intelligence session new_intel =
     (let ei = extractedIntelligence session
      in session\<lparr>extractedIntelligence :=
           ei\<lparr>upiIds := union_into (upiIds ei) (dict_get new_intel ''upi_ids''),
              phishingLinks := union_into (phishingLinks ei) (dict_get new_intel ''urls''),
              phoneNumbers := union_into (phoneNumbers ei) (dict_get new_intel ''phone_numbers''),
              bankAccounts :=
                union_into (bankAccounts ei) (dict_get new_intel ''bank_accounts'')\<rparr>\<rparr>)"


section \<open>Stage Engine (services/conversation\_engine.py)\<close>

definition determine_conversation_stage :: "int \<Rightarrow> pydict \<Rightarrow> string" where
  "determine_conversation_stage message_count extracted_intel =
     (let has_critical_info =
            (length (dict_get extracted_intel ''upi_ids'') > 0
             \<or> length (dict_get extracted_intel ''urls'') > 0
             \<or> length (dict_get extracted_intel ''bank_accounts'') > 0)
      in if message_count \<le> 2 then ''trust''
         else if message_count \<le> 6 \<or> \<not> has_critical_info then ''extract''
         else ''stall'')"


section \<open>Callback Policy (services/callback\_service.py)\<close>

definition should_send_callback :: "settings \<Rightarrow> SessionData \<Rightarrow> bool" where
  "should_send_callback cfg session =
     (let ei = extractedIntelligence session;
          has_intelligence =
            (length (upiIds ei) > 0 \<or> length (phishingLinks ei) > 0
             \<or> length (phoneNumbers ei) > 0 \<or> length (bankAccounts ei) > 0
             \<or> length (suspiciousKeywords ei) > 0);
          reached_max_turns = (totalMessages session \<ge> MAX_TURNS cfg)
      in scamDetected session \<and> totalMessages session \<ge> 3
         \<and> (has_intelligence \<or> reached_max_turns))"

function str_nat :: "nat \<Rightarrow> string" where
  "str_nat n = (if n < 10 then [char_of (48 + n)] else str_nat (n div 10) @ [char_of (48 + n mod 10)])"
  by pat_completeness auto
termination
  by (relation "measure (\<lambda>n. n)") auto

definition str_int :: "int \<Rightarrow> string" where
  \<comment> \<open>\<^verbatim>\<open>str(i)\<close>\<close>
  "str_int i = (if i < 0 then CHR ''-'' # str_nat (nat (- i)) else str_nat (nat i))"

definition build_agent_notes :: "SessionData \<Rightarrow> string" where
  "build_agent_notes session =
     (let ei = extractedIntelligence session;
          tactics =
            (if suspiciousKeywords ei \<noteq> []
             then [''Used tactics: '' @ py_join '', '' (take 5 (suspiciousKeywords ei))]
             else []);
          requested_items =
            (if upiIds ei \<noteq> []
             then [''UPI IDs ('' @ str_nat (length (upiIds ei)) @ '')''] else [])
            @ (if phishingLinks ei \<noteq> []
               then [''malicious links ('' @ str_nat (length (phishingLinks ei)) @ '')'']
               else [])
            @ (if bankAccounts ei \<noteq> []
               then [''bank accounts ('' @ str_nat (length (bankAccounts ei)) @ '')'']
               else []);
          requested =
            (if requested_items \<noteq> []
             then [''Requested: '' @ py_join '', '' requested_items] else []);
          persistence =
            (if totalMessages session > 7
             then [''Highly persistent ('' @ str_int (totalMessages session) @ '' messages)'']
             else if totalMessages session > 4 then [''Moderately persistent'']
             else []);
          notes = tactics @ requested @ persistence
      in if notes \<noteq> [] then py_join ''. '' notes @ ''.''
         else ''Limited engagement, minimal intelligence extracted.'')"

text \<open>
  \<open>send_final_result\<close> posts the payload to the evaluation endpoint. The endpoint is a
  parameter: a function from the payload to the success of the delivery. Every failure of
  the request is caught inside \<open>send_final_result\<close> and reported as \<open>False\<close>.
\<close>

definition final_payload :: "SessionData \<Rightarrow> FinalResultPayload" where
  "final_payload session =
     \<lparr>payloadSessionId = sessionId session, payloadScamDetected = scamDetected session,
      totalMessagesExchanged = totalMessages session,
      payloadIntelligence = extractedIntelligence session,
      payloadAgentNotes =
        (if agentNotes session \<noteq> [] then agentNotes session else ''Conversation completed'')\<rparr>"

definition send_final_result :: "(FinalResultPayload \<Rightarrow> bool) \<Rightarrow> SessionData \<Rightarrow> bool" where
  "send_final_result sink session = sink (final_payload session)"


section \<open>Orchestrator (api/v1/honeypot.py)\<close>

text \<open>
  \<open>build_prompt\<close> formats its four arguments into the text of the prompt and
  \<open>generate_agent_reply\<close> sends that text to an external language model, returning a fixed
  apology when the request fails. The pair is a parameter of the model: a function from
  the four arguments to the reply.
\<close>

record prompt =
  current_message :: string
  conversation_history :: "(string \<times> string) list"
  prompt_stage :: string
  prompt_memory :: pydict

text \<open>
  What one call of the handler finds outside the program: the two readings of the clock
  (at the lookup of the session and at its creation), the classifier, the reply generator
  and the evaluation endpoint.
\<close>

record env =
  now_lookup :: int
  now_create :: int
  llm :: classifier
  generate_agent_reply :: "prompt \<Rightarrow> string"
  report_sink :: "FinalResultPayload \<Rightarrow> bool"

text \<open>The calls a handler makes to the scorer and to its collaborators, in order.\<close>

datatype event =
  ScorerInvoked string
| ClassifierInvoked string
| ReplyRequested prompt
| ReportDelivered FinalResultPayload

datatype http_error = Unauthorized | Forbidden

definition verify_api_key :: "settings \<Rightarrow> string option \<Rightarrow> http_error + bool" where
  "verify_api_key cfg api_key =
     (case api_key of
        None \<Rightarrow> Inl Unauthorized
      | Some k \<Rightarrow>
          if k = [] then Inl Unauthorized
          else if k \<noteq> API_KEY cfg then Inl Forbidden
          else Inr True)"

definition matched_of :: "details \<Rightarrow> string list" where
  \<comment> \<open>\<^verbatim>\<open>detection_result.get("details", {}).get("matched_keywords")\<close>, with \<open>[]\<close> for an
      absent key: the handler only tests the value for emptiness before it uses it\<close>
  "matched_of d = (case d of Heuristic h \<Rightarrow> matched_keywords h | _ \<Rightarrow> [])"

definition detect_scam :: "env \<Rightarrow> HoneypotRequest \<Rightarrow> SessionData \<Rightarrow> SessionData \<times> event list" where
  \<comment> \<open>lines 60 to 92 of the handler\<close>
  "detect_scam e request session =
     (if \<not> scamDetected session
      then
        let txt = msg_text (message request);
            (detection_result, calls) = predict_scam (llm e) txt (requestHistory request);
            evs = ScorerInvoked txt # map ClassifierInvoked calls
        in if is_scam detection_result
           then
             let ei = extractedIntelligence session;
                 kws = matched_of (details detection_result);
                 ei' = (if kws \<noteq> []
                        then ei\<lparr>suspiciousKeywords := list_set (suspiciousKeywords ei @ kws)\<rparr>
                        else ei)
             in (session\<lparr>scamDetected := True, extractedIntelligence := ei'\<rparr>, evs)
           else (session, evs)
      else (session, []))"

definition memory_step :: "pydict \<Rightarrow> string \<times> string list \<Rightarrow> pydict" where
  \<comment> \<open>one round of the loop over \<^verbatim>\<open>extracted.items()\<close>\<close>
  "memory_step mem kv =
     (if snd kv \<noteq> []
      then AList.update (fst kv) (list_set (dict_get mem (fst kv) @ snd kv)) mem
      else mem)"

definition update_memory :: "pydict \<Rightarrow> pydict \<Rightarrow> pydict" where
  "update_memory mem extracted = foldl memory_step mem extracted"

definition finalize :: "settings \<Rightarrow> env \<Rightarrow> SessionData \<Rightarrow> SessionData \<times> event list" where
  \<comment> \<open>lines 153 to 176 of the handler: the callback check, then the check of the maximum
      number of turns\<close>
  "finalize cfg e session =
     (let (s1, ev1) =
            (if should_send_callback cfg session
             then
               let s' = session\<lparr>agentNotes := build_agent_notes session\<rparr>;
                   callback_success = send_final_result (report_sink e) s'
               in (s', [ReportDelivered (final_payload s')])
             else (session, []));
          (s2, ev2) =
            (if totalMessages s1 \<ge> MAX_TURNS cfg
             then
               if scamDetected s1 \<and> agentNotes s1 = []
               then
                 let s' = s1\<lparr>agentNotes := build_agent_notes s1\<rparr>;
                     callback_success = send_final_result (report_sink e) s'
                 in (s', [ReportDelivered (final_payload s')])
               else (s1, [])
             else (s1, []))
      in (s2, ev1 @ ev2))"

definition extract_and_stage :: "string \<Rightarrow> SessionData \<Rightarrow> SessionData" where
  \<comment> \<open>lines 102 to 119 of the handler: extraction from the current message, merge into the
      session, update of the memory, stage\<close>
  "extract_and_stage txt session =
     (let extracted = extract_entities txt;
          s1 = update_intelligence session extracted;
          s2 = s1\<lparr>memory := update_memory (memory s1) extracted\<rparr>
      in s2\<lparr>stage := determine_conversation_stage (totalMessages s2) extracted\<rparr>)"

definition engage ::
  "settings \<Rightarrow> env \<Rightarrow> HoneypotRequest \<Rightarrow> SessionData
    \<Rightarrow> SessionData \<times> HoneypotResponse \<times> event list" where
  \<comment> \<open>lines 102 to 182 of the handler, run once the scam is confirmed\<close>
  "engage cfg e request session =
     (let cur = message request;
          s3 = extract_and_stage (msg_text cur) session;
          p = \<lparr>current_message = msg_text cur,
               conversation_history =
                 map (\<lambda>m. (sender m, msg_text m)) (butlast (conversationHistory s3)),
               prompt_stage = stage s3, prompt_memory = memory s3\<rparr>;
          agent_reply = generate_agent_reply e p;
          agent_message =
            \<lparr>sender = ''user'', msg_text = agent_reply, timestamp = timestamp cur + 1000\<rparr>;
          s4 = add_message s3 agent_message;
          (s5, evs) = finalize cfg e s4
      in (s5, \<lparr>status = ''success'', reply = agent_reply\<rparr>, ReplyRequested p # evs))"

record outcome =
  response :: "http_error + HoneypotResponse"
  store :: sessions
  events :: "event list"

definition write_back :: "sessions \<Rightarrow> string \<Rightarrow> SessionData \<Rightarrow> sessions" where
  \<comment> \<open>the table once the handler is done with the session it found under \<open>session_id\<close>:
      \<open>update_session\<close> has stored the object under its own id, and the entry it was found
      under is the same object\<close>
  "write_back ss session_id session = (update_session ss session)(session_id \<mapsto> session)"

definition handle_message ::
  "settings \<Rightarrow> env \<Rightarrow> sessions \<Rightarrow> HoneypotRequest \<Rightarrow> string option \<Rightarrow> outcome" where
  "handle_message cfg e ss request x_api_key =
     (case verify_api_key cfg x_api_key of
        Inl err \<Rightarrow> \<lparr>response = Inl err, store = ss, events = []\<rparr>
      | Inr _ \<Rightarrow>
          let session_id = requestSessionId request;
              (session0, ss1) =
                get_or_create_session cfg (now_lookup e) (now_create e) ss session_id;
              session1 = add_message session0 (message request);
              (session2, evs) = detect_scam e request session1
          in if \<not> scamDetected session2
             then \<lparr>response = Inr \<lparr>status = ''success'', reply = ''Thank you for the message.''\<rparr>,
                   store = write_back ss1 session_id session2, events = evs\<rparr>
             else
               let (session3, resp, evs') = engage cfg e request session2
               in \<lparr>response = Inr resp, store = write_back ss1 session_id session3,
                    events = evs @ evs'\<rparr>)"

text \<open>
  The server handles the requests it receives one after the other on the one table;
  \<open>serve\<close> is the list of their outcomes.
\<close>

fun serve :: "settings \<Rightarrow> sessions \<Rightarrow> (env \<times> HoneypotRequest \<times> string option) list \<Rightarrow> outcome list" where
  "serve cfg ss [] = []"
| "serve cfg ss ((e, request, k) # rest) =
     (let out = handle_message cfg e ss request k in out # serve cfg (store out) rest)"


section \<open>Notions used by the properties\<close>

text \<open>
  Every session is stored under its own id: \<open>create_session\<close> and \<open>update_session\<close> are the
  only writes to the table, and both use the id of the session as the key.
\<close>

definition wf_store :: "sessions \<Rightarrow> bool" where
  "wf_store ss = (\<forall>k s. ss k = Some s \<longrightarrow> sessionId s = k)"

fun is_report :: "event \<Rightarrow> bool" where
  "is_report (ReportDelivered p) = True"
| "is_report ev = False"

fun is_scoring :: "event \<Rightarrow> bool" where
  "is_scoring (ScorerInvoked t) = True"
| "is_scoring (ClassifierInvoked c) = True"
| "is_scoring ev = False"

definition deliveries :: "outcome \<Rightarrow> nat" where
  \<comment> \<open>how many times a call of the handler invoked the delivery of the final report\<close>
  "deliveries out = length (filter is_report (events out))"

definition spec_stage :: "int \<Rightarrow> ExtractedIntelligence \<Rightarrow> string" where
  \<comment> \<open>the rule of the specification for the stage, read on the intelligence accumulated
      in the session: trust up to 2 messages; else extract up to 6 messages or while no
      payment handle, URL or bank account is known; else stall\<close>
  "spec_stage message_count ei =
     (if message_count \<le> 2 then ''trust''
      else if message_count \<le> 6
              \<or> (upiIds ei = [] \<and> phishingLinks ei = [] \<and> bankAccounts ei = [])
           then ''extract''
      else ''stall'')"

text \<open>
  Inputs for the examples: a world where the clock stands at 0, the classifier fails,
  the reply generator answers \<open>ok\<close> and the evaluation endpoint accepts every report; a
  request of the session \<open>s\<close> carrying one message of the scammer; the valid key.
\<close>

definition quiet_env :: env where
  "quiet_env =
     \<lparr>now_lookup = 0, now_create = 0, llm = (\<lambda>c. None),
      generate_agent_reply = (\<lambda>p. ''ok''), report_sink = (\<lambda>p. True)\<rparr>"

definition scammer_says :: "string \<Rightarrow> HoneypotRequest" where
  "scammer_says txt =
     \<lparr>requestSessionId = ''s'',
      message = \<lparr>sender = ''scammer'', msg_text = txt, timestamp = 0\<rparr>,
      requestHistory = []\<rparr>"

definition valid_key :: "string option" where
  "valid_key = Some (API_KEY default_settings)"

definition turn :: "string \<Rightarrow> env \<times> HoneypotRequest \<times> string option" where
  "turn txt = (quiet_env, scammer_says txt, valid_key)"


section \<open>Auxiliary facts\<close>

lemma set_list_set: "set (list_set xs) = set xs"
  by (simp add: list_set_def)


lemma map_of_absent: "k \<notin> fst ` set d \<Longrightarrow> map_of d k = None"
  by (simp add: map_of_eq_None_iff)

lemma map_of_present: "k \<in> fst ` set d \<Longrightarrow> \<exists>v. map_of d k = Some v"
  using map_of_eq_None_iff [of d k] by (cases "map_of d k") auto

lemma dict_get_absent: "k \<notin> fst ` set d \<Longrightarrow> dict_get d k = []"
  by (simp add: dict_get_def map_of_absent)

lemma category_absent: "k \<notin> fst ` set d \<Longrightarrow> category d k = {}"
  by (simp add: category_def dict_get_absent)


section \<open>Scam Scorer: properties\<close>

text \<open>
  C4. Whenever the heuristic keyword score of a text is at least 6, \<open>predict_scam\<close>
  declares a scam by the method \<open>heuristic\<close>, with confidence \<open>min (score / 15) 0.95\<close>, and
  hands nothing to the classifier: the list of classifier calls is empty, whatever the
  classifier \<open>cl\<close> and the history are.
\<close>

theorem predict_scam_fast_path:
  assumes "score (heuristic_scam_score txt) \<ge> 6"
  shows "is_scam (fst (predict_scam cl txt hist)) = True
       \<and> det_method (fst (predict_scam cl txt hist)) = ''heuristic''
       \<and> confidence (fst (predict_scam cl txt hist))
           = min (of_int (score (heuristic_scam_score txt)) / 15) (95 / 100)
       \<and> snd (predict_scam cl txt hist) = []"
  using assms by (simp add: predict_scam_def Let_def)

text \<open>
  The text \<open>Send OTP and CVV now\<close> scores 10 (\<open>otp\<close> and \<open>cvv\<close>, 5 each): it is declared a
  scam with confidence \<open>10 / 15\<close>, with no call of the classifier.
\<close>

theorem predict_scam_fast_path_witness:
  "score (heuristic_scam_score ''Send OTP and CVV now'') \<ge> 6
   \<and> is_scam (fst (predict_scam (\<lambda>c. None) ''Send OTP and CVV now'' [])) = True
   \<and> det_method (fst (predict_scam (\<lambda>c. None) ''Send OTP and CVV now'' [])) = ''heuristic''
   \<and> confidence (fst (predict_scam (\<lambda>c. None) ''Send OTP and CVV now'' [])) = 2 / 3
   \<and> snd (predict_scam (\<lambda>c. None) ''Send OTP and CVV now'' []) = []"
proof -
  have sc: "score (heuristic_scam_score ''Send OTP and CVV now'') = 10"
    by code_simp
  then have h: "score (heuristic_scam_score ''Send OTP and CVV now'') \<ge> 6"
    by simp
  from predict_scam_fast_path [OF h, of "\<lambda>c. None" "[]"] h sc show ?thesis
    by simp
qed


section \<open>Intelligence Merger: properties\<close>

lemma map_of_merge:
  "map_of (merge_intelligence a b) k =
     (if k \<in> fst ` set a \<union> fst ` set b
      then Some (list_set (dict_get a k @ dict_get b k)) else None)"
  by (simp add: merge_intelligence_def Let_def map_of_map_restrict restrict_map_def
      set_list_set image_Un)

lemma category_merge: "category (merge_intelligence a b) k = category a k \<union> category b k"
proof (cases "k \<in> fst ` set a \<union> fst ` set b")
  case True
  then show ?thesis
    by (simp add: category_def dict_get_def [of "merge_intelligence a b"] map_of_merge set_list_set)
next
  case False
  then show ?thesis
    by (simp add: category_absent)
      (simp add: category_def dict_get_def [of "merge_intelligence a b"] map_of_merge)
qed

lemma keys_merge: "fst ` set (merge_intelligence a b) = fst ` set a \<union> fst ` set b"
  by (force simp: merge_intelligence_def Let_def set_list_set)

lemma dict_view_merge:
  "dict_view (merge_intelligence a b) k =
     (if k \<in> fst ` set a \<union> fst ` set b then Some (category a k \<union> category b k) else None)"
  by (simp add: dict_view_def map_of_merge set_list_set category_def)

lemma dict_view_Some: "k \<in> fst ` set a \<Longrightarrow> dict_view a k = Some (category a k)"
  using map_of_present [of k a] by (auto simp: dict_view_def category_def dict_get_def)

lemma dict_view_None: "k \<notin> fst ` set a \<Longrightarrow> dict_view a k = None"
  by (simp add: dict_view_def map_of_absent)

text \<open>
  C5. Seen as sets of strings per category, \<open>merge_intelligence\<close> is commutative,
  associative and idempotent, and the empty dictionary is its identity: the two sides
  have the same keys and the same set under every key. The dictionary that the extractor
  returns for the empty text (every category present and empty) is an identity too, once
  an absent category is read as empty.
\<close>

theorem merge_intelligence_laws:
  "dict_view (merge_intelligence a b) = dict_view (merge_intelligence b a)
   \<and> dict_view (merge_intelligence (merge_intelligence a b) c)
       = dict_view (merge_intelligence a (merge_intelligence b c))
   \<and> dict_view (merge_intelligence a a) = dict_view a
   \<and> dict_view (merge_intelligence a []) = dict_view a
   \<and> category (merge_intelligence a (extract_entities [])) = category a"
proof (intro conjI)
  show "dict_view (merge_intelligence a b) = dict_view (merge_intelligence b a)"
    by (rule ext) (simp add: dict_view_merge Un_commute)
  show "dict_view (merge_intelligence (merge_intelligence a b) c)
       = dict_view (merge_intelligence a (merge_intelligence b c))"
    by (rule ext) (simp add: dict_view_merge keys_merge category_merge Un_assoc)
  show "dict_view (merge_intelligence a a) = dict_view a"
    by (rule ext) (simp add: dict_view_merge dict_view_Some dict_view_None)
  show "dict_view (merge_intelligence a []) = dict_view a"
    by (rule ext) (simp add: dict_view_merge dict_view_Some dict_view_None category_def dict_get_def)
  show "category (merge_intelligence a (extract_entities [])) = category a"
    by (rule ext) (simp add: category_merge, simp add: category_def dict_get_def extract_entities_def)
qed


section \<open>Entity Extractor: properties\<close>

text \<open>
  C6. For every text, no string that the extractor returns among the phone numbers is
  among the bank accounts it returns for the same text.
\<close>

theorem extract_entities_accounts_not_phones:
  "set (dict_get (extract_entities txt) ''bank_accounts'')
     \<inter> set (dict_get (extract_entities txt) ''phone_numbers'') = {}"
  by (auto simp: extract_entities_def dict_get_def Let_def set_list_set)

text \<open>
  The ten digits \<open>9876543210\<close> match the pattern of a phone number and the pattern of an
  account number; the extractor returns them as a phone number only.
\<close>

theorem extract_entities_accounts_not_phones_witness:
  "dict_get (extract_entities ''call 9876543210 acct 123456789012'') ''phone_numbers''
     = [''9876543210'']
   \<and> dict_get (extract_entities ''call 9876543210 acct 123456789012'') ''bank_accounts''
     = [''123456789012'']
   \<and> set (dict_get (extract_entities ''call 9876543210 acct 123456789012'') ''bank_accounts'')
     \<inter> set (dict_get (extract_entities ''call 9876543210 acct 123456789012'') ''phone_numbers'')
     = {}"
proof -
  have p: "dict_get (extract_entities ''call 9876543210 acct 123456789012'') ''phone_numbers''
     = [''9876543210'']"
    by code_simp
  have b: "dict_get (extract_entities ''call 9876543210 acct 123456789012'') ''bank_accounts''
     = [''123456789012'']"
    by code_simp
  from p b
    extract_entities_accounts_not_phones [of "''call 9876543210 acct 123456789012''"]
  show ?thesis by blast
qed


section \<open>Callback Policy: properties\<close>

text \<open>
  C7. \<open>should_send_callback\<close> holds exactly when the scam is confirmed, at least 3 messages
  were exchanged, and one of the five categories of the session's intelligence is not
  empty or the number of messages has reached \<open>MAX_TURNS\<close>. In particular it does not
  hold for a session with a confirmed scam and 2 messages.
\<close>

theorem should_send_callback_iff:
  "should_send_callback cfg s =
     (scamDetected s \<and> totalMessages s \<ge> 3
      \<and> ((upiIds (extractedIntelligence s) \<noteq> []
           \<or> phishingLinks (extractedIntelligence s) \<noteq> []
           \<or> phoneNumbers (extractedIntelligence s) \<noteq> []
           \<or> bankAccounts (extractedIntelligence s) \<noteq> []
           \<or> suspiciousKeywords (extractedIntelligence s) \<noteq> [])
          \<or> totalMessages s \<ge> MAX_TURNS cfg))
   \<and> (scamDetected s \<and> totalMessages s = 2 \<longrightarrow> \<not> should_send_callback cfg s)"
  by (auto simp: should_send_callback_def Let_def)

text \<open>
  A session with a confirmed scam, one keyword and 2 messages is not finalised; the same
  session with 3 messages is.
\<close>

theorem should_send_callback_iff_witness:
  "\<not> should_send_callback default_settings
       ((new_session 0 ''s'')
          \<lparr>scamDetected := True, totalMessages := 2,
           extractedIntelligence := empty_intelligence\<lparr>suspiciousKeywords := [''otp'']\<rparr>\<rparr>)
   \<and> should_send_callback default_settings
       ((new_session 0 ''s'')
          \<lparr>scamDetected := True, totalMessages := 3,
           extractedIntelligence := empty_intelligence\<lparr>suspiciousKeywords := [''otp'']\<rparr>\<rparr>)"
  using
    should_send_callback_iff [of default_settings
      "(new_session 0 ''s'')
          \<lparr>scamDetected := True, totalMessages := 2,
           extractedIntelligence := empty_intelligence\<lparr>suspiciousKeywords := [''otp'']\<rparr>\<rparr>"]
    should_send_callback_iff [of default_settings
      "(new_session 0 ''s'')
          \<lparr>scamDetected := True, totalMessages := 3,
           extractedIntelligence := empty_intelligence\<lparr>suspiciousKeywords := [''otp'']\<rparr>\<rparr>"]
  by (simp add: new_session_def empty_intelligence_def default_settings_def)


section \<open>Session Store: properties\<close>

text \<open>
  C9. Expiry is checked at the lookup. When the table holds a session under an id and the
  clock of the lookup is later than its creation by more than the configured timeout (in
  minutes; the clock counts microseconds), \<open>get_session\<close> removes the session and answers
  that there is none, and \<open>get_or_create_session\<close> returns a fresh session and stores it
  under the same id: it carries the id, was created at the clock of the creation, has no
  message, a count of 0, the stage \<open>trust\<close>, an empty memory, no intelligence, no notes,
  and the scam flag unset.
\<close>

theorem lazy_expiry:
  assumes "ss session_id = Some s"
    and "now - createdAt s > SESSION_TIMEOUT_MINUTES cfg * 60000000"
  shows "get_session cfg now ss session_id = (None, ss(session_id := None))
       \<and> fst (get_or_create_session cfg now now' ss session_id)
           = \<lparr>sessionId = session_id, conversationHistory = [], stage = ''trust'',
              memory = [], totalMessages = 0, scamDetected = False,
              extractedIntelligence =
                \<lparr>bankAccounts = [], upiIds = [], phishingLinks = [], phoneNumbers = [],
                 suspiciousKeywords = []\<rparr>,
              sessionKeywords = [], agentNotes = [], createdAt = now'\<rparr>
       \<and> snd (get_or_create_session cfg now now' ss session_id)
           = ss(session_id \<mapsto> fst (get_or_create_session cfg now now' ss session_id))"
  using assms
  by (simp add: get_session_def get_or_create_session_def create_session_def
      new_session_def empty_intelligence_def timeout_micros_def)

text \<open>
  With the timeout of 30 minutes (1800000000 microseconds), a session created at time 0,
  holding 4 messages and confirmed as a scam, is gone at time 1800000001, and a fresh one,
  created at time 1800000002, takes its place.
\<close>

theorem lazy_expiry_witness:
  "[''s'' \<mapsto> (new_session 0 ''s'')\<lparr>totalMessages := 4, scamDetected := True\<rparr>] ''s''
      = Some ((new_session 0 ''s'')\<lparr>totalMessages := 4, scamDetected := True\<rparr>)
   \<and> 1800000001 - createdAt ((new_session 0 ''s'')\<lparr>totalMessages := 4, scamDetected := True\<rparr>)
       > SESSION_TIMEOUT_MINUTES default_settings * 60000000
   \<and> get_session default_settings 1800000001
        [''s'' \<mapsto> (new_session 0 ''s'')\<lparr>totalMessages := 4, scamDetected := True\<rparr>] ''s''
       = (None, Map.empty)
   \<and> get_or_create_session default_settings 1800000001 1800000002
        [''s'' \<mapsto> (new_session 0 ''s'')\<lparr>totalMessages := 4, scamDetected := True\<rparr>] ''s''
       = (\<lparr>sessionId = ''s'', conversationHistory = [], stage = ''trust'',
           memory = [], totalMessages = 0, scamDetected = False,
           extractedIntelligence =
             \<lparr>bankAccounts = [], upiIds = [], phishingLinks = [], phoneNumbers = [],
              suspiciousKeywords = []\<rparr>,
           sessionKeywords = [], agentNotes = [], createdAt = 1800000002\<rparr>,
          [''s'' \<mapsto>
            \<lparr>sessionId = ''s'', conversationHistory = [], stage = ''trust'',
             memory = [], totalMessages = 0, scamDetected = False,
             extractedIntelligence =
               \<lparr>bankAccounts = [], upiIds = [], phishingLinks = [], phoneNumbers = [],
                suspiciousKeywords = []\<rparr>,
             sessionKeywords = [], agentNotes = [], createdAt = 1800000002\<rparr>])"
proof -
  have h1: "[''s'' \<mapsto> (new_session 0 ''s'')\<lparr>totalMessages := 4, scamDetected := True\<rparr>] ''s''
      = Some ((new_session 0 ''s'')\<lparr>totalMessages := 4, scamDetected := True\<rparr>)"
    by simp
  have h2: "1800000001 - createdAt ((new_session 0 ''s'')\<lparr>totalMessages := 4, scamDetected := True\<rparr>)
       > SESSION_TIMEOUT_MINUTES default_settings * 60000000"
    by (simp add: new_session_def default_settings_def)
  from h1 h2
    lazy_expiry [where ss = "[''s'' \<mapsto> (new_session 0 ''s'')\<lparr>totalMessages := 4, scamDetected := True\<rparr>]"
      and session_id = "''s''"
      and s = "(new_session 0 ''s'')\<lparr>totalMessages := 4, scamDetected := True\<rparr>"
      and cfg = default_settings and now = 1800000001 and now' = 1800000002]
  show ?thesis
    by (simp add: prod_eq_iff)
qed


section \<open>Orchestrator: the steps of one call\<close>

lemma finalize_fields: "\<exists>n. fst (finalize cfg e s) = s\<lparr>agentNotes := n\<rparr>"
  unfolding finalize_def Let_def
  by (auto simp: split_def intro: exI[of _ "agentNotes s"])

lemma detect_scam_confirmed: "scamDetected s \<Longrightarrow> detect_scam e rq s = (s, [])"
  by (simp add: detect_scam_def)

lemma detect_scam_rejected:
  "\<not> scamDetected s
   \<Longrightarrow> \<not> is_scam (fst (predict_scam (llm e) (msg_text (message rq)) (requestHistory rq)))
   \<Longrightarrow> fst (detect_scam e rq s) = s"
  by (simp add: detect_scam_def Let_def split_def)

lemma detect_scam_flag:
  "scamDetected (fst (detect_scam e rq s))
     = (scamDetected s
        \<or> is_scam (fst (predict_scam (llm e) (msg_text (message rq)) (requestHistory rq))))"
  by (simp add: detect_scam_def Let_def split_def)


lemma detect_scam_frame:
  "sessionId (fst (detect_scam e rq s)) = sessionId s
   \<and> createdAt (fst (detect_scam e rq s)) = createdAt s
   \<and> totalMessages (fst (detect_scam e rq s)) = totalMessages s
   \<and> memory (fst (detect_scam e rq s)) = memory s"
  by (simp add: detect_scam_def Let_def split_def)

lemma engage_session:
  "\<exists>m n. fst (engage cfg e rq s)
      = (add_message (extract_and_stage (msg_text (message rq)) s) m)\<lparr>agentNotes := n\<rparr>"
proof -
  define s3 where "s3 = extract_and_stage (msg_text (message rq)) s"
  define m where "m = \<lparr>sender = ''user'',
      msg_text = generate_agent_reply e
        \<lparr>current_message = msg_text (message rq),
         conversation_history =
           map (\<lambda>m. (sender m, msg_text m)) (butlast (conversationHistory s3)),
         prompt_stage = stage s3, prompt_memory = memory s3\<rparr>,
      timestamp = timestamp (message rq) + 1000\<rparr>"
  obtain n where n: "fst (finalize cfg e (add_message s3 m)) = (add_message s3 m)\<lparr>agentNotes := n\<rparr>"
    using finalize_fields by blast
  have "fst (engage cfg e rq s) = fst (finalize cfg e (add_message s3 m))"
    by (simp add: engage_def Let_def split_def s3_def m_def)
  with n have "fst (engage cfg e rq s) = (add_message s3 m)\<lparr>agentNotes := n\<rparr>"
    by simp
  then show ?thesis
    unfolding s3_def by (intro exI[of _ m] exI[of _ n])
qed

lemma engage_events_no_scoring: "\<not> is_scoring ev" if "ev \<in> set (snd (snd (engage cfg e rq s)))"
  using that
  by (auto simp: engage_def finalize_def Let_def split_def split: if_splits)

lemma handle_message_authenticated:
  assumes "verify_api_key cfg k = Inr True"
    and "get_or_create_session cfg (now_lookup e) (now_create e) ss (requestSessionId rq) = (s0, ss1)"
  shows "handle_message cfg e ss rq k =
     (let session2 = fst (detect_scam e rq (add_message s0 (message rq)));
          evs = snd (detect_scam e rq (add_message s0 (message rq)))
      in if \<not> scamDetected session2
         then \<lparr>response = Inr \<lparr>status = ''success'', reply = ''Thank you for the message.''\<rparr>,
               store = write_back ss1 (requestSessionId rq) session2, events = evs\<rparr>
         else \<lparr>response = Inr (fst (snd (engage cfg e rq session2))),
               store = write_back ss1 (requestSessionId rq) (fst (engage cfg e rq session2)),
               events = evs @ snd (snd (engage cfg e rq session2))\<rparr>)"
  using assms by (simp add: handle_message_def Let_def split_def)

lemma write_back_same: "write_back ss k s k = Some s"
  by (simp add: write_back_def)

lemma verify_api_key_cases:
  "verify_api_key cfg k = Inr True \<or> (\<exists>err. verify_api_key cfg k = Inl err)"
  by (simp add: verify_api_key_def split: option.splits)

lemma handle_message_unauthenticated:
  "verify_api_key cfg k = Inl err
   \<Longrightarrow> handle_message cfg e ss rq k = \<lparr>response = Inl err, store = ss, events = []\<rparr>"
  by (simp add: handle_message_def)

lemma get_or_create_session_key:
  assumes "get_or_create_session cfg now now' ss session_id = (s0, ss1)"
    and "wf_store ss"
  shows "sessionId s0 = session_id \<and> ss1(session_id \<mapsto> x) = ss(session_id \<mapsto> x)"
  using assms
  by (auto simp: get_or_create_session_def get_session_def create_session_def new_session_def
      wf_store_def split: option.splits if_splits)

lemma engage_frame:
  "sessionId (fst (engage cfg e rq s)) = sessionId s
   \<and> createdAt (fst (engage cfg e rq s)) = createdAt s
   \<and> scamDetected (fst (engage cfg e rq s)) = scamDetected s"
proof -
  obtain m n where "fst (engage cfg e rq s)
      = (add_message (extract_and_stage (msg_text (message rq)) s) m)\<lparr>agentNotes := n\<rparr>"
    using engage_session by blast
  then show ?thesis
    by (simp add: add_message_def extract_and_stage_def update_intelligence_def Let_def)
qed

lemma handle_message_store:
  assumes "wf_store ss"
  shows "store (handle_message cfg e ss rq k) = ss
       \<or> (\<exists>s'. sessionId s' = requestSessionId rq
              \<and> store (handle_message cfg e ss rq k) = ss(requestSessionId rq \<mapsto> s'))"
proof -
  consider (ok) "verify_api_key cfg k = Inr True" | (no) err where "verify_api_key cfg k = Inl err"
    using verify_api_key_cases by blast
  then show ?thesis
  proof cases
    case no
    then show ?thesis by (simp add: handle_message_unauthenticated)
  next
    case ok
    obtain s0 ss1 where lookup:
      "get_or_create_session cfg (now_lookup e) (now_create e) ss (requestSessionId rq) = (s0, ss1)"
      by (cases "get_or_create_session cfg (now_lookup e) (now_create e) ss (requestSessionId rq)")
    note key = get_or_create_session_key [OF lookup assms]
    let ?s2 = "fst (detect_scam e rq (add_message s0 (message rq)))"
    have id2: "sessionId ?s2 = requestSessionId rq"
      using key by (simp add: detect_scam_frame add_message_def)
    have wb: "write_back ss1 (requestSessionId rq) s' = ss(requestSessionId rq \<mapsto> s')"
      if "sessionId s' = requestSessionId rq" for s'
      using that key by (simp add: write_back_def update_session_def)
    show ?thesis
    proof (cases "scamDetected ?s2")
      case False
      then have "store (handle_message cfg e ss rq k) = ss(requestSessionId rq \<mapsto> ?s2)"
        by (simp add: handle_message_authenticated [OF ok lookup] Let_def wb [OF id2])
      with id2 show ?thesis by blast
    next
      case True
      have id3: "sessionId (fst (engage cfg e rq ?s2)) = requestSessionId rq"
        using id2 by (simp add: engage_frame)
      from True have "store (handle_message cfg e ss rq k)
          = ss(requestSessionId rq \<mapsto> fst (engage cfg e rq ?s2))"
        by (simp add: handle_message_authenticated [OF ok lookup] Let_def wb [OF id3])
      with id3 show ?thesis by blast
    qed
  qed
qed

lemma handle_message_wf:
  assumes "wf_store ss"
  shows "wf_store (store (handle_message cfg e ss rq k))"
  using handle_message_store [OF assms, of cfg e rq k] assms
  by (auto simp: wf_store_def split: if_splits)

lemma handle_message_other_session:
  assumes "wf_store ss" and "requestSessionId rq \<noteq> session_id"
  shows "store (handle_message cfg e ss rq k) session_id = ss session_id"
  using handle_message_store [OF assms(1), of cfg e rq k] assms(2)
  by auto

lemma handle_message_confirmed:
  assumes "ss (requestSessionId rq) = Some s"
    and "scamDetected s"
    and "now_lookup e - createdAt s \<le> timeout_micros cfg"
  shows "(\<forall>ev \<in> set (events (handle_message cfg e ss rq k)). \<not> is_scoring ev)
       \<and> (\<exists>s'. store (handle_message cfg e ss rq k) (requestSessionId rq) = Some s'
              \<and> scamDetected s' \<and> createdAt s' = createdAt s)"
proof -
  consider (ok) "verify_api_key cfg k = Inr True" | (no) err where "verify_api_key cfg k = Inl err"
    using verify_api_key_cases by blast
  then show ?thesis
  proof cases
    case no
    then show ?thesis using assms by (simp add: handle_message_unauthenticated)
  next
    case ok
    have lookup:
      "get_or_create_session cfg (now_lookup e) (now_create e) ss (requestSessionId rq) = (s, ss)"
      using assms(1,3) by (simp add: get_or_create_session_def get_session_def)
    let ?s1 = "add_message s (message rq)"
    have c1: "scamDetected ?s1" using assms(2) by (simp add: add_message_def)
    have d: "detect_scam e rq ?s1 = (?s1, [])"
      using detect_scam_confirmed [OF c1] .
    have out: "handle_message cfg e ss rq k =
        \<lparr>response = Inr (fst (snd (engage cfg e rq ?s1))),
         store = write_back ss (requestSessionId rq) (fst (engage cfg e rq ?s1)),
         events = snd (snd (engage cfg e rq ?s1))\<rparr>"
      using c1 by (simp add: handle_message_authenticated [OF ok lookup] Let_def d)
    have "\<forall>ev \<in> set (snd (snd (engage cfg e rq ?s1))). \<not> is_scoring ev"
      using engage_events_no_scoring by blast
    moreover have "scamDetected (fst (engage cfg e rq ?s1))
        \<and> createdAt (fst (engage cfg e rq ?s1)) = createdAt s"
      using c1 by (simp add: engage_frame add_message_def)
    ultimately show ?thesis
      by (simp add: out write_back_same)
  qed
qed





lemma engaged_session:
  assumes auth: "verify_api_key cfg k = Inr True"
    and lookup: "get_or_create_session cfg (now_lookup e) (now_create e) ss (requestSessionId rq)
           = (s0, ss1)"
    and engaged: "scamDetected s0
       \<or> is_scam (fst (predict_scam (llm e) (msg_text (message rq)) (requestHistory rq)))"
  shows "\<exists>m n. store (handle_message cfg e ss rq k) (requestSessionId rq)
      = Some ((add_message
                (extract_and_stage (msg_text (message rq))
                   (fst (detect_scam e rq (add_message s0 (message rq))))) m)
               \<lparr>agentNotes := n\<rparr>)"
proof -
  let ?s2 = "fst (detect_scam e rq (add_message s0 (message rq)))"
  have c: "scamDetected ?s2"
    using engaged by (simp add: detect_scam_flag add_message_def)
  then have "store (handle_message cfg e ss rq k) (requestSessionId rq)
      = Some (fst (engage cfg e rq ?s2))"
    by (simp add: handle_message_authenticated [OF auth lookup] Let_def write_back_same)
  then show ?thesis
    using engage_session [of cfg e rq ?s2] by auto
qed


lemma engaged_turn_stage:
  assumes auth: "verify_api_key cfg k = Inr True"
    and lookup: "get_or_create_session cfg (now_lookup e) (now_create e) ss (requestSessionId rq)
           = (s0, ss1)"
    and engaged: "scamDetected s0
       \<or> is_scam (fst (predict_scam (llm e) (msg_text (message rq)) (requestHistory rq)))"
  shows "\<exists>s'. store (handle_message cfg e ss rq k) (requestSessionId rq) = Some s'
     \<and> stage s' = determine_conversation_stage (totalMessages s0 + 1)
                     (extract_entities (msg_text (message rq)))"
proof -
  obtain m n where st: "store (handle_message cfg e ss rq k) (requestSessionId rq)
      = Some ((add_message
                (extract_and_stage (msg_text (message rq))
                   (fst (detect_scam e rq (add_message s0 (message rq))))) m)
               \<lparr>agentNotes := n\<rparr>)"
    using engaged_session [OF auth lookup engaged] by blast
  show ?thesis
    by (simp add: st add_message_def extract_and_stage_def Let_def update_intelligence_def
        detect_scam_frame)
qed


section \<open>Orchestrator: properties\<close>

text \<open>
  C10. On a turn that leaves the scam unconfirmed (the session found or created for the
  request has no confirmed scam and the scorer does not declare one), the handler
  answers \<open>Thank you for the message.\<close> and the session it leaves in the table is the
  session it found with the incoming message appended to the history and the number of
  messages increased by one: stage, intelligence, memory, scam flag and notes are the
  ones it found.
\<close>

theorem rejected_turn_frame:
  assumes auth: "verify_api_key cfg k = Inr True"
    and lookup: "get_or_create_session cfg (now_lookup e) (now_create e) ss (requestSessionId rq)
           = (s0, ss1)"
    and fresh: "\<not> scamDetected s0"
    and rejected:
      "\<not> is_scam (fst (predict_scam (llm e) (msg_text (message rq)) (requestHistory rq)))"
  shows "response (handle_message cfg e ss rq k)
           = Inr \<lparr>status = ''success'', reply = ''Thank you for the message.''\<rparr>
       \<and> (\<exists>s'. store (handle_message cfg e ss rq k) (requestSessionId rq) = Some s'
             \<and> conversationHistory s' = conversationHistory s0 @ [message rq]
             \<and> totalMessages s' = totalMessages s0 + 1
             \<and> stage s' = stage s0
             \<and> extractedIntelligence s' = extractedIntelligence s0
             \<and> memory s' = memory s0
             \<and> scamDetected s' = scamDetected s0
             \<and> agentNotes s' = agentNotes s0
             \<and> s' = s0\<lparr>conversationHistory := conversationHistory s0 @ [message rq],
                       totalMessages := totalMessages s0 + 1\<rparr>)"
proof -
  let ?s1 = "add_message s0 (message rq)"
  have unconfirmed: "\<not> scamDetected ?s1"
    using fresh by (simp add: add_message_def)
  have same: "fst (detect_scam e rq ?s1) = ?s1"
    using detect_scam_rejected [OF unconfirmed rejected] .
  have out: "handle_message cfg e ss rq k =
      \<lparr>response = Inr \<lparr>status = ''success'', reply = ''Thank you for the message.''\<rparr>,
       store = write_back ss1 (requestSessionId rq) ?s1,
       events = snd (detect_scam e rq ?s1)\<rparr>"
    using unconfirmed by (simp add: handle_message_authenticated [OF auth lookup] Let_def same)
  show ?thesis
    by (simp add: out write_back_same add_message_def)
qed


text \<open>
  The first message of a new session, \<open>Hello, how are you today?\<close>, has no keyword and
  the classifier fails: the turn is rejected.
\<close>

theorem rejected_turn_frame_witness:
  "verify_api_key default_settings valid_key = Inr True
   \<and> get_or_create_session default_settings (now_lookup quiet_env) (now_create quiet_env)
        Map.empty (requestSessionId (scammer_says ''Hello, how are you today?''))
       = (new_session 0 ''s'', [''s'' \<mapsto> new_session 0 ''s''])
   \<and> \<not> scamDetected (new_session 0 ''s'')
   \<and> \<not> is_scam (fst (predict_scam (llm quiet_env)
            (msg_text (message (scammer_says ''Hello, how are you today?'')))
            (requestHistory (scammer_says ''Hello, how are you today?''))))
   \<and> response (handle_message default_settings quiet_env Map.empty
                 (scammer_says ''Hello, how are you today?'') valid_key)
       = Inr \<lparr>status = ''success'', reply = ''Thank you for the message.''\<rparr>
   \<and> store (handle_message default_settings quiet_env Map.empty
                 (scammer_says ''Hello, how are you today?'') valid_key) ''s''
       = Some ((new_session 0 ''s'')
                 \<lparr>conversationHistory :=
                    [\<lparr>sender = ''scammer'', msg_text = ''Hello, how are you today?'',
                      timestamp = 0\<rparr>],
                  totalMessages := 1\<rparr>)"
proof -
  have h1: "verify_api_key default_settings valid_key = Inr True"
    by (simp add: verify_api_key_def valid_key_def default_settings_def)
  have h2: "get_or_create_session default_settings (now_lookup quiet_env) (now_create quiet_env)
        Map.empty (requestSessionId (scammer_says ''Hello, how are you today?''))
       = (new_session 0 ''s'', [''s'' \<mapsto> new_session 0 ''s''])"
    by (simp add: get_or_create_session_def get_session_def create_session_def quiet_env_def
        scammer_says_def)
  have h3: "\<not> scamDetected (new_session 0 ''s'')"
    by (simp add: new_session_def)
  have h4: "\<not> is_scam (fst (predict_scam (llm quiet_env)
            (msg_text (message (scammer_says ''Hello, how are you today?'')))
            (requestHistory (scammer_says ''Hello, how are you today?''))))"
    by code_simp
  from rejected_turn_frame [OF h1 h2 h3 h4] h1 h2 h3 h4 show ?thesis
    by (simp add: scammer_says_def new_session_def)
qed


text \<open>
  C8. Once a session has its scam confirmed, it stays confirmed and the scorer is not
  invoked for it again: in every run of the server from a table where the session is
  stored with the flag set, after every request the session is still stored with the
  flag set, and no request for this session invokes the scorer or the classifier,
  whatever its message. The session is the one stored under the id as long as it has not
  expired: the requests for it are assumed to arrive before its timeout.
\<close>

theorem scorer_gate_closed:
  assumes "wf_store ss"
    and "ss session_id = Some s"
    and "scamDetected s"
    and "\<forall>(e, rq, k) \<in> set turns.
           requestSessionId rq = session_id \<longrightarrow> now_lookup e - createdAt s \<le> timeout_micros cfg"
  shows "\<forall>((e, rq, k), out) \<in> set (zip turns (serve cfg ss turns)).
           (\<exists>s'. store out session_id = Some s' \<and> scamDetected s')
           \<and> (requestSessionId rq = session_id
                \<longrightarrow> (\<forall>t. ScorerInvoked t \<notin> set (events out))
                    \<and> (\<forall>c. ClassifierInvoked c \<notin> set (events out)))"
  using assms
proof (induction turns arbitrary: ss s)
  case Nil
  then show ?case by simp
next
  case (Cons t turns)
  obtain e rq k where t: "t = (e, rq, k)" by (cases t)
  let ?out = "handle_message cfg e ss rq k"
  have step: "(\<exists>s'. store ?out session_id = Some s' \<and> scamDetected s' \<and> createdAt s' = createdAt s)
      \<and> (requestSessionId rq = session_id \<longrightarrow> (\<forall>ev \<in> set (events ?out). \<not> is_scoring ev))"
  proof (cases "requestSessionId rq = session_id")
    case True
    have live: "now_lookup e - createdAt s \<le> timeout_micros cfg"
      using Cons.prems(4) True by (simp add: t)
    from handle_message_confirmed [of ss rq s e cfg k] True Cons.prems(2,3) live
    show ?thesis by simp
  next
    case False
    then show ?thesis
      using handle_message_other_session [OF Cons.prems(1) False] Cons.prems(2,3) by simp
  qed
  then obtain s' where s': "store ?out session_id = Some s'" "scamDetected s'"
    "createdAt s' = createdAt s"
    by blast
  have wf: "wf_store (store ?out)"
    using handle_message_wf [OF Cons.prems(1)] .
  have later: "\<forall>(e, rq, k) \<in> set turns.
      requestSessionId rq = session_id \<longrightarrow> now_lookup e - createdAt s' \<le> timeout_micros cfg"
    using Cons.prems(4) s'(3) by simp
  note ih = Cons.IH [OF wf s'(1) s'(2) later]
  have no_scoring: "(\<forall>t. ScorerInvoked t \<notin> set (events ?out))
      \<and> (\<forall>c. ClassifierInvoked c \<notin> set (events ?out))"
    if "requestSessionId rq = session_id"
    using step that by fastforce
  show ?case
    using ih s' no_scoring by (simp add: t Let_def)
qed

text \<open>
  A session with a confirmed scam receives \<open>otp cvv\<close>, a text that the scorer would
  declare a scam: the scorer is not invoked.
\<close>

theorem scorer_gate_closed_witness:
  "wf_store [''s'' \<mapsto> (new_session 0 ''s'')\<lparr>scamDetected := True\<rparr>]
   \<and> scamDetected ((new_session 0 ''s'')\<lparr>scamDetected := True\<rparr>)
   \<and> now_lookup quiet_env - createdAt ((new_session 0 ''s'')\<lparr>scamDetected := True\<rparr>)
       \<le> timeout_micros default_settings
   \<and> (\<forall>t. ScorerInvoked t \<notin> set (events (handle_message default_settings quiet_env
              [''s'' \<mapsto> (new_session 0 ''s'')\<lparr>scamDetected := True\<rparr>]
              (scammer_says ''otp cvv'') valid_key)))
   \<and> (\<forall>c. ClassifierInvoked c \<notin> set (events (handle_message default_settings quiet_env
              [''s'' \<mapsto> (new_session 0 ''s'')\<lparr>scamDetected := True\<rparr>]
              (scammer_says ''otp cvv'') valid_key)))
   \<and> (\<exists>s'. store (handle_message default_settings quiet_env
              [''s'' \<mapsto> (new_session 0 ''s'')\<lparr>scamDetected := True\<rparr>]
              (scammer_says ''otp cvv'') valid_key) ''s'' = Some s'
          \<and> scamDetected s')"
proof -
  let ?s = "(new_session 0 ''s'')\<lparr>scamDetected := True\<rparr>"
  let ?ss = "[''s'' \<mapsto> ?s]"
  have h1: "wf_store ?ss"
    by (simp add: wf_store_def new_session_def)
  have h2: "?ss ''s'' = Some ?s"
    by simp
  have h3: "scamDetected ?s"
    by simp
  have live: "now_lookup quiet_env - createdAt ?s \<le> timeout_micros default_settings"
    by (simp add: quiet_env_def new_session_def timeout_micros_def default_settings_def)
  then have h4: "\<forall>(e, rq, k) \<in> set [turn ''otp cvv''].
      requestSessionId rq = ''s''
        \<longrightarrow> now_lookup e - createdAt ?s \<le> timeout_micros default_settings"
    by (simp add: turn_def)
  have sid: "requestSessionId (scammer_says ''otp cvv'') = ''s''"
    by (simp add: scammer_says_def)
  from scorer_gate_closed [where ss = ?ss and session_id = "''s''" and s = ?s
      and turns = "[turn ''otp cvv'']" and cfg = default_settings, OF h1 h2 h3 h4]
  have "(\<exists>s'. store (handle_message default_settings quiet_env ?ss
                     (scammer_says ''otp cvv'') valid_key) ''s'' = Some s' \<and> scamDetected s')
      \<and> (\<forall>t. ScorerInvoked t \<notin> set (events (handle_message default_settings quiet_env ?ss
                     (scammer_says ''otp cvv'') valid_key)))
      \<and> (\<forall>c. ClassifierInvoked c \<notin> set (events (handle_message default_settings quiet_env ?ss
                     (scammer_says ''otp cvv'') valid_key)))"
    by (simp add: turn_def Let_def sid)
  with h1 h3 live show ?thesis
    by blast
qed






text \<open>
  C1. The delivery of the final report is invoked on two different turns of one session:
  the first message confirms the scam, the second turn delivers the report and writes the
  notes, and the third turn delivers it again although the notes are no longer empty. The
  callback check of the handler does not look at the notes; only the check of the maximum
  number of turns does.
\<close>

theorem report_delivered_on_two_turns:
  "map deliveries (serve default_settings Map.empty [turn ''otp cvv'', turn ''hi'', turn ''yo''])
     = [0, 1, 1]
   \<and> map (\<lambda>out. map_option agentNotes (store out ''s''))
        (serve default_settings Map.empty [turn ''otp cvv'', turn ''hi'', turn ''yo''])
     = [Some [], Some ''Used tactics: otp, cvv.'',
        Some ''Used tactics: otp, cvv. Moderately persistent.'']"
  by code_simp


text \<open>
  C2. The stage that the handler stores is the stage engine applied to the number of
  messages and to what the extractor yields from the current message alone
  (\<open>engaged_turn_stage\<close>), not to the intelligence accumulated in the session. In the run
  below the second message carries a URL; at the fourth message the session has 7
  messages and holds the URL, so that the rule of the specification gives \<open>stall\<close>, and
  the handler stores \<open>extract\<close>. Each entry shows the number of messages after the turn,
  the URLs of the session, the stage stored, and the stage of the rule at the number of
  messages the handler used.
\<close>

theorem stage_from_current_message_only:
  "map (\<lambda>out. map_option
          (\<lambda>s. (totalMessages s, phishingLinks (extractedIntelligence s), stage s,
                spec_stage (totalMessages s - 1) (extractedIntelligence s)))
          (store out ''s''))
     (serve default_settings Map.empty
        [turn ''otp cvv'', turn ''see http://x.y'', turn ''ok'', turn ''ok''])
   = [Some (2, [], ''trust'', ''trust''),
      Some (4, [''http://x.y''], ''extract'', ''extract''),
      Some (6, [''http://x.y''], ''extract'', ''extract''),
      Some (8, [''http://x.y''], ''extract'', ''stall'')]"
  by code_simp

end
